theory Spec2Isabelle
  imports Main
begin

section \<open>Time-Travel Photo Booth: the edit client, the encoder and the session controller\<close>

text \<open>
  The development follows the three source files: \<^verbatim>\<open>services/geminiService.ts\<close> (the
  function \<^verbatim>\<open>editImage\<close>), the file utility (\<^verbatim>\<open>fileToBase64\<close>) and \<^verbatim>\<open>App.tsx\<close>
  (the component state and its handlers). Promises are modelled by their outcome:
  a rejection or a throw is \<open>Inl\<close> of the thrown value, a resolution is \<open>Inr\<close>.
\<close>

subsection \<open>JavaScript values that cross the model\<close>

text \<open>
  A thrown value. \<open>Error m\<close> is \<^verbatim>\<open>new Error(m)\<close>; \<open>TypeError m\<close> is the engine's
  own error for a property read on \<^verbatim>\<open>undefined\<close> (an instance of \<^verbatim>\<open>Error\<close> too);
  \<open>Thrown v\<close> is any value that is not an instance of \<^verbatim>\<open>Error\<close> (for example the
  progress event that a file reader passes to \<^verbatim>\<open>onerror\<close>).
\<close>

datatype js_exn = Error string | TypeError string | Thrown string

fun instanceofError :: "js_exn \<Rightarrow> bool" where
  "instanceofError (Error m) = True"
| "instanceofError (TypeError m) = True"
| "instanceofError (Thrown v) = False"

fun message :: "js_exn \<Rightarrow> string" where
  "message (Error m) = m"
| "message (TypeError m) = m"
| "message (Thrown v) = []"

text \<open>\<^verbatim>\<open>String.prototype.split\<close> with a one-character separator.\<close>

fun jsSplit :: "char \<Rightarrow> string \<Rightarrow> string list" where
  "jsSplit sep [] = [[]]"
| "jsSplit sep (c # cs) =
     (if c = sep then [] # jsSplit sep cs
      else (case jsSplit sep cs of
              [] \<Rightarrow> [[c]]
            | w # ws \<Rightarrow> (c # w) # ws))"

text \<open>Array indexing: \<^verbatim>\<open>xs[i]\<close> is \<^verbatim>\<open>undefined\<close> (here \<open>None\<close>) out of range.\<close>

fun jsIndex :: "'a list \<Rightarrow> nat \<Rightarrow> 'a option" where
  "jsIndex [] i = None"
| "jsIndex (x # xs) 0 = Some x"
| "jsIndex (x # xs) (Suc i) = jsIndex xs i"

subsection \<open>The edit request client (\<^verbatim>\<open>geminiService.ts\<close>)\<close>

record Blob =
  data :: string
  blobMimeType :: string

record Part =
  partText :: "string option"
  inlineData :: "Blob option"

record Content =
  parts :: "Part list"

record Candidate =
  content :: Content

record GenerateContentResponse =
  candidates :: "Candidate list"

datatype Modality = MODALITY_TEXT | MODALITY_IMAGE | MODALITY_AUDIO

record GenerateContentParameters =
  model :: string
  contents :: "Part list"
  responseModalities :: "Modality list"

text \<open>The remote service: what \<^verbatim>\<open>ai.models.generateContent\<close> answers to a request.\<close>

type_synonym remote = "GenerateContentParameters \<Rightarrow> js_exn + GenerateContentResponse"

text \<open>The request that \<^verbatim>\<open>editImage\<close> builds (lines 18 to 36).\<close>

definition editRequest :: "string \<Rightarrow> string \<Rightarrow> string \<Rightarrow> GenerateContentParameters" where
  "editRequest base64Image mimeTypeArg prompt =
     \<lparr> model = ''gemini-2.5-flash-image'',
       contents =
         [ \<lparr> partText = None,
             inlineData = Some \<lparr> data = base64Image, blobMimeType = mimeTypeArg \<rparr> \<rparr>,
           \<lparr> partText = Some prompt, inlineData = None \<rparr> ],
       responseModalities = [MODALITY_IMAGE] \<rparr>"

text \<open>The loop of lines 40 to 46 over the parts, with the throw that follows it.\<close>

fun scanParts :: "Part list \<Rightarrow> js_exn + string" where
  "scanParts [] = Inl (Error ''No image data was found in the Gemini API response.'')"
| "scanParts (part # rest) =
     (case inlineData part of
        Some blob \<Rightarrow> Inr (data blob)
      | None \<Rightarrow> scanParts rest)"

text \<open>
  \<^verbatim>\<open>response.candidates[0].content.parts\<close>: with no candidate, \<^verbatim>\<open>candidates[0]\<close> is
  \<^verbatim>\<open>undefined\<close> and reading \<^verbatim>\<open>.content\<close> of it throws the engine's TypeError (its
  message text depends on the engine).
\<close>

definition extractImage :: "GenerateContentResponse \<Rightarrow> js_exn + string" where
  "extractImage response =
     (case jsIndex (candidates response) 0 of
        None \<Rightarrow> Inl (TypeError ''Cannot read properties of undefined'')
      | Some candidate \<Rightarrow> scanParts (parts (content candidate)))"

definition editImage :: "remote \<Rightarrow> string \<Rightarrow> string \<Rightarrow> string \<Rightarrow> js_exn + string" where
  "editImage generateContent base64Image mimeTypeArg prompt =
     (case generateContent (editRequest base64Image mimeTypeArg prompt) of
        Inl e \<Rightarrow> Inl e
      | Inr response \<Rightarrow> extractImage response)"

subsection \<open>The encoder (\<^verbatim>\<open>fileToBase64\<close>)\<close>

text \<open>
  A file, as far as the program looks at it: its media type (\<^verbatim>\<open>file.type\<close>), what
  a \<^verbatim>\<open>FileReader\<close> does with it (\<^verbatim>\<open>onload\<close> with the data URL, or \<^verbatim>\<open>onerror\<close>), and
  the object URL that the browser gives for it.
\<close>

datatype reader_outcome = Onload string | Onerror js_exn

record File =
  fileType :: string
  readAsDataURL :: reader_outcome
  objectURL :: string

definition fileToBase64 :: "File \<Rightarrow> js_exn + string" where
  "fileToBase64 file =
     (case readAsDataURL file of
        Onerror e \<Rightarrow> Inl e
      | Onload result \<Rightarrow>
          (case jsIndex (jsSplit CHR '','' result) 1 of
             None \<Rightarrow> Inl (Error ''Failed to read base64 data from file.'')
           | Some base64Data \<Rightarrow>
               if base64Data \<noteq> [] then Inr base64Data
               else Inl (Error ''Failed to read base64 data from file.'')))"

subsection \<open>The session controller (\<^verbatim>\<open>App.tsx\<close>): types and constants\<close>

record UserImage =
  base64 :: string
  url :: string
  mimeType :: string

record Scene =
  sceneId :: string
  name :: string
  description :: string
  promptFragment :: string
  bgColor :: string
  textColor :: string

definition HISTORICAL_SCENES :: "Scene list" where
  "HISTORICAL_SCENES =
     [ \<lparr> sceneId = ''rome'', name = ''Ancient Rome'',
         description = ''The bustling Roman Forum'',
         promptFragment =
           ''a scene in the Roman Forum, with classical architecture and citizens in togas'',
         bgColor = ''bg-amber-800'', textColor = ''text-amber-100'' \<rparr>,
       \<lparr> sceneId = ''dino'', name = ''Jurassic Era'',
         description = ''Amongst the dinosaurs'',
         promptFragment =
           ''a lush, prehistoric jungle teeming with dinosaurs like T-Rex and Brontosaurus'',
         bgColor = ''bg-emerald-800'', textColor = ''text-emerald-100'' \<rparr>,
       \<lparr> sceneId = ''paris'', name = ''1920s Paris'',
         description = ''The Roaring Twenties'',
         promptFragment =
           ''a vibrant street scene in 1920s Paris, with flapper dresses, vintage cars, and Art Deco architecture'',
         bgColor = ''bg-slate-700'', textColor = ''text-slate-100'' \<rparr>,
       \<lparr> sceneId = ''moon'', name = ''Moon Landing'',
         description = ''First steps on the moon'',
         promptFragment =
           ''the surface of the moon during the Apollo landing, with the Earth visible in the sky and the lunar module nearby'',
         bgColor = ''bg-indigo-900'', textColor = ''text-indigo-100'' \<rparr>,
       \<lparr> sceneId = ''viking'', name = ''Viking Age'',
         description = ''Exploring the fjords'',
         promptFragment =
           ''a Viking longship sailing through a misty fjord, surrounded by dramatic cliffs and Norse warriors'',
         bgColor = ''bg-cyan-900'', textColor = ''text-cyan-100'' \<rparr>,
       \<lparr> sceneId = ''future'', name = ''Cyberpunk City'',
         description = ''A neon-lit future'',
         promptFragment =
           ''a futuristic cyberpunk city at night, filled with flying vehicles, neon signs, and towering skyscrapers'',
         bgColor = ''bg-purple-900'', textColor = ''text-purple-100'' \<rparr> ]"

text \<open>The six \<^verbatim>\<open>useState\<close> cells of the component, with their initial values.\<close>

record AppState =
  userImage :: "UserImage option"
  selectedScene :: "Scene option"
  generatedImage :: "UserImage option"
  isLoading :: bool
  error :: "string option"
  isCameraOn :: bool

definition initialState :: AppState where
  "initialState =
     \<lparr> userImage = None, selectedScene = None, generatedImage = None,
       isLoading = False, error = None, isCameraOn = False \<rparr>"

subsection \<open>Handlers\<close>

text \<open>
  \<^verbatim>\<open>handleFileChange\<close>: the argument is \<^verbatim>\<open>event.target.files?.[0]\<close>. Nothing of the
  state is read or written before the read of the file settles, so the handler is
  one transition, taken when \<^verbatim>\<open>fileToBase64\<close> settles.
\<close>

definition handleFileChange :: "File option \<Rightarrow> AppState \<Rightarrow> AppState" where
  "handleFileChange chosen s =
     (case chosen of
        None \<Rightarrow> s
      | Some file \<Rightarrow>
          (case fileToBase64 file of
             Inr b \<Rightarrow>
               s\<lparr> userImage :=
                    Some \<lparr> base64 = b, url = objectURL file, mimeType = fileType file \<rparr>,
                  error := None \<rparr>
           | Inl err \<Rightarrow> s\<lparr> error := Some ''Could not read the selected file.'' \<rparr>))"

text \<open>
  \<^verbatim>\<open>canvas.toDataURL('image/jpeg')\<close>: the encoded frame behind the fixed prefix, or
  \<^verbatim>\<open>data:,\<close> for a canvas without pixels (a video that has no frame yet).
\<close>

datatype canvas_frame = Encoded string | Blank

fun toDataURL :: "canvas_frame \<Rightarrow> string" where
  "toDataURL (Encoded payload) = ''data:image/jpeg;base64,'' @ payload"
| "toDataURL Blank = ''data:,''"

text \<open>
  \<^verbatim>\<open>handleCapture\<close>: \<open>refs\<close> says that the video and the canvas element are mounted
  (\<^verbatim>\<open>videoRef.current && canvasRef.current\<close>), \<open>ctx\<close> is \<open>None\<close> when
  \<^verbatim>\<open>getContext('2d')\<close> gives \<^verbatim>\<open>null\<close>, else the frame drawn on the canvas.
\<close>

definition handleCapture :: "bool \<Rightarrow> canvas_frame option \<Rightarrow> AppState \<Rightarrow> AppState" where
  "handleCapture refs ctx s =
     (if refs then
        (case ctx of
           None \<Rightarrow> s
         | Some frame \<Rightarrow>
             (let dataUrl = toDataURL frame;
                  b = jsSplit CHR '','' dataUrl ! 1
              in s\<lparr> userImage :=
                      Some \<lparr> base64 = b, url = dataUrl, mimeType = ''image/jpeg'' \<rparr>,
                    isCameraOn := False,
                    error := None \<rparr>))
      else s)"

text \<open>The instruction text of line 118.\<close>

definition prompt :: "Scene \<Rightarrow> string" where
  "prompt scene =
     ''Take the person in the provided photo and seamlessly place them into a new scene. The scene should be: ''
     @ promptFragment scene
     @ ''. The final image should look like a vintage photograph, matching the historical era in style, lighting, and color tone.''"

text \<open>
  \<^verbatim>\<open>handleGenerate\<close> runs in two parts. The first (lines 110 to 125) runs at the
  click, up to the \<^verbatim>\<open>await\<close>: it either rejects the action or sets three cells and
  issues the call. What the closure keeps for the second part is the photo it read
  from the state (and the scene, from which the prompt was built).
\<close>

record PendingEdit =
  sentImage :: UserImage
  sentScene :: Scene

definition pendingRequest :: "PendingEdit \<Rightarrow> GenerateContentParameters" where
  "pendingRequest call =
     editRequest (base64 (sentImage call)) (mimeType (sentImage call)) (prompt (sentScene call))"

definition handleGenerate_issue :: "AppState \<Rightarrow> AppState \<times> PendingEdit option" where
  "handleGenerate_issue s =
     (case userImage s of
        None \<Rightarrow> (s\<lparr> error := Some ''Please provide a photo and select a scene.'' \<rparr>, None)
      | Some img \<Rightarrow>
          (case selectedScene s of
             None \<Rightarrow> (s\<lparr> error := Some ''Please provide a photo and select a scene.'' \<rparr>, None)
           | Some scene \<Rightarrow>
               (s\<lparr> isLoading := True, error := None, generatedImage := None \<rparr>,
                Some \<lparr> sentImage = img, sentScene = scene \<rparr>)))"

text \<open>
  The second part (lines 126 to 140) runs when \<^verbatim>\<open>editImage\<close> settles, on the state
  of that moment: the setters overwrite cells, whatever they hold.
\<close>

definition handleGenerate_settle :: "PendingEdit \<Rightarrow> js_exn + string \<Rightarrow> AppState \<Rightarrow> AppState" where
  "handleGenerate_settle call outcome s =
     (case outcome of
        Inr editedImageBase64 \<Rightarrow>
          s\<lparr> generatedImage :=
               Some \<lparr> base64 = editedImageBase64,
                      url = ''data:'' @ mimeType (sentImage call) @ '';base64,'' @ editedImageBase64,
                      mimeType = mimeType (sentImage call) \<rparr>,
             isLoading := False \<rparr>
      | Inl err \<Rightarrow>
          s\<lparr> error :=
               Some (if instanceofError err then ''An error occurred: '' @ message err
                     else ''An unknown error occurred.''),
             isLoading := False \<rparr>)"

text \<open>
  The handler with nothing in between its two parts: the state after it, and the
  requests that went to the remote service.
\<close>

definition handleGenerate :: "remote \<Rightarrow> AppState \<Rightarrow> AppState \<times> GenerateContentParameters list" where
  "handleGenerate generateContent s =
     (case handleGenerate_issue s of
        (s', None) \<Rightarrow> (s', [])
      | (s', Some call) \<Rightarrow>
          (handleGenerate_settle call
             (editImage generateContent (base64 (sentImage call)) (mimeType (sentImage call))
                (prompt (sentScene call))) s',
           [pendingRequest call]))"

text \<open>
  \<^verbatim>\<open>reset\<close>; its last line empties the file input of the page, which is no cell of
  the state.
\<close>

definition reset :: "AppState \<Rightarrow> AppState" where
  "reset s =
     s\<lparr> userImage := None, selectedScene := None, generatedImage := None,
        error := None, isLoading := False, isCameraOn := False \<rparr>"

subsection \<open>The camera effect\<close>

text \<open>
  The effect of lines 46 to 67 depends on \<^verbatim>\<open>isCameraOn\<close>. Each run with the camera on
  calls \<^verbatim>\<open>getUserMedia\<close> once and owns one variable \<^verbatim>\<open>stream\<close>, \<^verbatim>\<open>null\<close> until the
  promise resolves. A media stream is the list of its tracks.
\<close>

datatype readyState = Live | Ended

type_synonym MediaStream = "readyState list"

record CameraEffect =
  stream :: "MediaStream option"
  settled :: bool

text \<open>\<^verbatim>\<open>track.stop()\<close>, and the cleanup function of lines 62 to 66.\<close>

fun stop :: "readyState \<Rightarrow> readyState" where
  "stop t = Ended"

definition cleanup :: "CameraEffect \<Rightarrow> CameraEffect" where
  "cleanup eff =
     (case stream eff of
        None \<Rightarrow> eff
      | Some tracks \<Rightarrow> eff\<lparr> stream := Some (map stop tracks) \<rparr>)"

subsection \<open>The component with its calls in flight\<close>

text \<open>
  The state of the component together with what is pending around it: the edit calls
  that were issued and have not settled, and one entry for each run of the camera
  effect that asked for the camera (the last entry belongs to the current run while
  the camera is on).
\<close>

record World =
  app :: AppState
  inflight :: "PendingEdit list"
  effects :: "CameraEffect list"

definition initialWorld :: World where
  "initialWorld = \<lparr> app = initialState, inflight = [], effects = [] \<rparr>"

text \<open>
  What the effect does after a render in which \<^verbatim>\<open>isCameraOn\<close> changed from \<open>before\<close>:
  turned on, a new run asks for the camera; turned off, the cleanup of the run that
  is ending is called. With \<^verbatim>\<open>isCameraOn\<close> unchanged the effect does not run.
\<close>

definition runEffect :: "bool \<Rightarrow> World \<Rightarrow> World" where
  "runEffect before w =
     (if \<not> before \<and> isCameraOn (app w) then
        w\<lparr> effects := effects w @ [\<lparr> stream = None, settled = False \<rparr>] \<rparr>
      else if before \<and> \<not> isCameraOn (app w) then
        (case effects w of
           [] \<Rightarrow> w
         | _ # _ \<Rightarrow> w\<lparr> effects := butlast (effects w) @ [cleanup (last (effects w))] \<rparr>)
      else w)"

datatype event =
    FileChange "File option"
  | UseCamera
  | CancelCamera
  | Capture "canvas_frame option"
  | SelectScene Scene
  | Generate
  | EditSettles nat "js_exn + GenerateContentResponse"
  | Reset
  | CameraGranted nat nat
  | CameraDenied nat js_exn

text \<open>
  One handler or one continuation of a promise. \<open>EditSettles k r\<close>: the remote service
  answers \<open>r\<close> to the \<open>k\<close>-th call in flight, and \<^verbatim>\<open>editImage\<close> and the rest of
  \<^verbatim>\<open>handleGenerate\<close> run on it. \<open>CameraGranted k n\<close>: the promise of the \<open>k\<close>-th
  camera request resolves with a stream of \<open>n\<close> live tracks; \<open>CameraDenied k e\<close>: it
  rejects.
\<close>

fun handle :: "event \<Rightarrow> World \<Rightarrow> World" where
  "handle (FileChange chosen) w = w\<lparr> app := handleFileChange chosen (app w) \<rparr>"
| "handle UseCamera w = w\<lparr> app := (app w)\<lparr> isCameraOn := True \<rparr> \<rparr>"
| "handle CancelCamera w = w\<lparr> app := (app w)\<lparr> isCameraOn := False \<rparr> \<rparr>"
| "handle (Capture ctx) w =
     w\<lparr> app := handleCapture (isCameraOn (app w)) ctx (app w) \<rparr>"
| "handle (SelectScene scene) w = w\<lparr> app := (app w)\<lparr> selectedScene := Some scene \<rparr> \<rparr>"
| "handle Generate w =
     (case handleGenerate_issue (app w) of
        (s', None) \<Rightarrow> w\<lparr> app := s' \<rparr>
      | (s', Some call) \<Rightarrow> w\<lparr> app := s', inflight := inflight w @ [call] \<rparr>)"
| "handle (EditSettles k r) w =
     (case jsIndex (inflight w) k of
        None \<Rightarrow> w
      | Some call \<Rightarrow>
          w\<lparr> app :=
               handleGenerate_settle call
                 (editImage (\<lambda>request. r) (base64 (sentImage call)) (mimeType (sentImage call))
                    (prompt (sentScene call)))
                 (app w),
             inflight := take k (inflight w) @ drop (Suc k) (inflight w) \<rparr>)"
| "handle Reset w = w\<lparr> app := reset (app w) \<rparr>"
| "handle (CameraGranted k n) w =
     (case jsIndex (effects w) k of
        None \<Rightarrow> w
      | Some eff \<Rightarrow>
          if settled eff then w
          else w\<lparr> effects :=
                    (effects w)[k := eff\<lparr> stream := Some (replicate n Live), settled := True \<rparr>] \<rparr>)"
| "handle (CameraDenied k e) w =
     (case jsIndex (effects w) k of
        None \<Rightarrow> w
      | Some eff \<Rightarrow>
          if settled eff then w
          else w\<lparr> app :=
                    (app w)\<lparr> error := Some ''Could not access the camera. Please check permissions.'',
                             isCameraOn := False \<rparr>,
                  effects := (effects w)[k := eff\<lparr> settled := True \<rparr>] \<rparr>)"

definition step :: "event \<Rightarrow> World \<Rightarrow> World" where
  "step ev w = runEffect (isCameraOn (app w)) (handle ev w)"

definition run :: "event list \<Rightarrow> World \<Rightarrow> World" where
  "run evs w = foldl (\<lambda>w' ev. step ev w') w evs"

text \<open>
  What the page offers in a state, from \<^verbatim>\<open>renderLeftPanel\<close>, \<^verbatim>\<open>renderRightPanel\<close> and
  \<^verbatim>\<open>ImageSlot\<close>: the control that fires the event is rendered and not disabled, or
  the promise that settles is pending.
\<close>

fun truthy :: "string option \<Rightarrow> bool" where
  "truthy None = False"
| "truthy (Some str) = (str \<noteq> [])"

definition scenePanel :: "AppState \<Rightarrow> bool" where
  "scenePanel s \<longleftrightarrow>
     userImage s \<noteq> None \<and> \<not> (generatedImage s \<noteq> None \<or> isLoading s \<or> truthy (error s))"

fun offered :: "World \<Rightarrow> event \<Rightarrow> bool" where
  "offered w (FileChange chosen) \<longleftrightarrow> \<not> isCameraOn (app w) \<and> userImage (app w) = None"
| "offered w UseCamera \<longleftrightarrow> \<not> isCameraOn (app w) \<and> userImage (app w) = None"
| "offered w CancelCamera \<longleftrightarrow> isCameraOn (app w)"
| "offered w (Capture ctx) \<longleftrightarrow> isCameraOn (app w)"
| "offered w (SelectScene scene) \<longleftrightarrow> scenePanel (app w) \<and> scene \<in> set HISTORICAL_SCENES"
| "offered w Generate \<longleftrightarrow>
     scenePanel (app w) \<and> \<not> (isLoading (app w) \<or> selectedScene (app w) = None)"
| "offered w (EditSettles k r) \<longleftrightarrow> k < length (inflight w)"
| "offered w Reset \<longleftrightarrow>
     \<not> isCameraOn (app w) \<and> truthy (map_option url (userImage (app w)))"
| "offered w (CameraGranted k n) \<longleftrightarrow>
     (case jsIndex (effects w) k of None \<Rightarrow> False | Some eff \<Rightarrow> \<not> settled eff)"
| "offered w (CameraDenied k e) \<longleftrightarrow>
     (case jsIndex (effects w) k of None \<Rightarrow> False | Some eff \<Rightarrow> \<not> settled eff)"

fun feasible :: "World \<Rightarrow> event list \<Rightarrow> bool" where
  "feasible w [] \<longleftrightarrow> True"
| "feasible w (ev # evs) \<longleftrightarrow> offered w ev \<and> feasible (step ev w) evs"

subsection \<open>Concrete inputs\<close>

definition textThenImage :: "string \<Rightarrow> GenerateContentResponse" where
  "textThenImage x =
     \<lparr> candidates =
         [ \<lparr> content =
               \<lparr> parts =
                   [ \<lparr> partText = Some ''Here is your picture.'', inlineData = None \<rparr>,
                     \<lparr> partText = None,
                       inlineData = Some \<lparr> data = x, blobMimeType = ''image/png'' \<rparr> \<rparr> ] \<rparr> \<rparr> ] \<rparr>"

definition photoP :: UserImage where
  "photoP = \<lparr> base64 = ''aGVsbG8='', url = ''blob:photo-1'', mimeType = ''image/jpeg'' \<rparr>"

definition fileP :: File where
  "fileP =
     \<lparr> fileType = ''image/jpeg'',
       readAsDataURL = Onload ''data:image/jpeg;base64,aGVsbG8='',
       objectURL = ''blob:photo-1'' \<rparr>"

definition rome :: Scene where
  "rome = hd HISTORICAL_SCENES"

definition scenePicked :: AppState where
  "scenePicked = initialState\<lparr> userImage := Some photoP, selectedScene := Some rome \<rparr>"

definition staleTrace :: "event list" where
  "staleTrace =
     [ FileChange (Some fileP), SelectScene rome, Generate, Reset,
       EditSettles 0 (Inr (textThenImage ''QUJD'')) ]"

definition leakTrace :: "event list" where
  "leakTrace = [ UseCamera, CancelCamera, CameraGranted 0 1, FileChange (Some fileP), Reset ]"

subsection \<open>Where a result comes from\<close>

text \<open>
  \<open>issuedAt evs i call\<close>: the \<open>i\<close>-th event of the history \<open>evs\<close> is a generate
  action, taken in a state whose photo and scene are those of \<open>call\<close>.
  \<open>resultOf call Q\<close> is the payload that lines 126 to 130 build from the photo of the
  call and the data \<open>Q\<close>.
\<close>

definition issuedAt :: "event list \<Rightarrow> nat \<Rightarrow> PendingEdit \<Rightarrow> bool" where
  "issuedAt evs i call \<longleftrightarrow>
     i < length evs \<and> evs ! i = Generate \<and>
     userImage (app (run (take i evs) initialWorld)) = Some (sentImage call) \<and>
     selectedScene (app (run (take i evs) initialWorld)) = Some (sentScene call)"

definition resultOf :: "PendingEdit \<Rightarrow> string \<Rightarrow> UserImage" where
  "resultOf call Q =
     \<lparr> base64 = Q,
       url = ''data:'' @ mimeType (sentImage call) @ '';base64,'' @ Q,
       mimeType = mimeType (sentImage call) \<rparr>"

section \<open>Properties\<close>

subsection \<open>The edit request client\<close>

lemma scanParts_skip:
  "\<forall>q \<in> set before. inlineData q = None \<Longrightarrow> scanParts (before @ rest) = scanParts rest"
  by (induction before) simp_all

lemma scanParts_none:
  "\<forall>q \<in> set ps. inlineData q = None \<Longrightarrow>
     scanParts ps = Inl (Error ''No image data was found in the Gemini API response.'')"
  by (induction ps) simp_all

text \<open>
  Claim C1. When the parts of the response (those of its first candidate, which is
  what the code reads) hold at least one part with image data, \<^verbatim>\<open>editImage\<close> resolves
  with the data of the first such part: every part before it has none.
\<close>

theorem editImage_first_image:
  assumes "generateContent (editRequest b m p) = Inr response"
    and "candidates response = candidate # others"
    and "\<exists>q \<in> set (parts (content candidate)). inlineData q \<noteq> None"
  shows "\<exists>before part after blob.
           parts (content candidate) = before @ part # after \<and>
           (\<forall>q \<in> set before. inlineData q = None) \<and>
           inlineData part = Some blob \<and>
           editImage generateContent b m p = Inr (data blob)"
proof -
  from assms(3) obtain before part after where
    dec: "parts (content candidate) = before @ part # after"
    and img: "inlineData part \<noteq> None"
    and pre: "\<forall>q \<in> set before. \<not> inlineData q \<noteq> None"
    using split_list_first_prop [of "parts (content candidate)" "\<lambda>q. inlineData q \<noteq> None"]
    by blast
  from img obtain blob where blob: "inlineData part = Some blob" by blast
  from pre have pre': "\<forall>q \<in> set before. inlineData q = None" by simp
  have "scanParts (parts (content candidate)) = Inr (data blob)"
    using scanParts_skip [OF pre', of "part # after"] dec blob by simp
  then have "editImage generateContent b m p = Inr (data blob)"
    using assms(1,2) by (simp add: editImage_def extractImage_def)
  with dec pre' blob show ?thesis by blast
qed

text \<open>The response with the parts [text only, image X] gives X.\<close>

theorem editImage_first_image_witness:
  "editImage (\<lambda>request. Inr (textThenImage ''QUJD'')) ''aGVsbG8='' ''image/jpeg'' ''p''
     = Inr ''QUJD''"
  using editImage_first_image [of "\<lambda>request. Inr (textThenImage ''QUJD'')"
      "''aGVsbG8=''" "''image/jpeg''" "''p''" "textThenImage ''QUJD''"
      "hd (candidates (textThenImage ''QUJD''))" "[]"]
  by (simp add: textThenImage_def editImage_def extractImage_def)

text \<open>
  Two facts around claim C2 that hold: a first candidate whose parts carry no image
  gives the error of line 46, and a rejection of the remote call comes out as it is.
\<close>

lemma editImage_no_image_part:
  assumes "generateContent (editRequest b m p) = Inr response"
    and "candidates response = candidate # others"
    and "\<forall>q \<in> set (parts (content candidate)). inlineData q = None"
  shows "editImage generateContent b m p
           = Inl (Error ''No image data was found in the Gemini API response.'')"
  using assms scanParts_none [of "parts (content candidate)"]
  by (simp add: editImage_def extractImage_def)

lemma editImage_rejection_unchanged:
  "generateContent (editRequest b m p) = Inl e \<Longrightarrow> editImage generateContent b m p = Inl e"
  by (simp add: editImage_def)

text \<open>
  Claim C2 says that every response without image data fails with the error "no image
  returned". A response with no candidate at all carries no image data, and on it
  \<^verbatim>\<open>editImage\<close> fails with the TypeError of the read \<^verbatim>\<open>candidates[0].content\<close>, before
  the loop and its throw are reached.
\<close>

theorem editImage_no_candidate:
  "editImage (\<lambda>request. Inr \<lparr> candidates = [] \<rparr>) ''aGVsbG8='' ''image/jpeg'' ''p''
     = Inl (TypeError ''Cannot read properties of undefined'') \<and>
   editImage (\<lambda>request. Inr \<lparr> candidates = [] \<rparr>) ''aGVsbG8='' ''image/jpeg'' ''p''
     \<noteq> Inl (Error ''No image data was found in the Gemini API response.'')"
  by (simp add: editImage_def extractImage_def)

subsection \<open>The encoder\<close>

text \<open>
  Claim C10. \<^verbatim>\<open>fileToBase64\<close> resolves with a non-empty string or rejects; when the
  data URL has nothing after its first comma (no second piece, or an empty one), it
  rejects.
\<close>

theorem fileToBase64_never_empty:
  "(case fileToBase64 file of Inr b \<Rightarrow> b \<noteq> [] | Inl e \<Rightarrow> True) \<and>
   (\<forall>result. readAsDataURL file = Onload result \<and>
       (jsIndex (jsSplit CHR '','' result) 1 = None \<or>
        jsIndex (jsSplit CHR '','' result) 1 = Some [])
      \<longrightarrow> fileToBase64 file = Inl (Error ''Failed to read base64 data from file.''))"
  by (auto simp: fileToBase64_def split: reader_outcome.splits option.splits)

theorem fileToBase64_never_empty_witness:
  "fileToBase64 \<lparr> fileType = ''image/png'', readAsDataURL = Onload ''data:image/png;base64,'',
       objectURL = ''blob:1'' \<rparr> = Inl (Error ''Failed to read base64 data from file.'')"
  using fileToBase64_never_empty
    [of "\<lparr> fileType = ''image/png'', readAsDataURL = Onload ''data:image/png;base64,'',
       objectURL = ''blob:1'' \<rparr>"]
  by simp

text \<open>
  The data URL of a canvas always has a piece after its first comma, so the index 1
  that \<^verbatim>\<open>handleCapture\<close> reads is in range.
\<close>

lemma jsSplit_nonempty: "jsSplit sep str \<noteq> []"
  by (induction str) (auto split: list.splits)

lemma jsSplit_append_sep:
  "sep \<notin> set pre \<Longrightarrow> jsSplit sep (pre @ sep # rest) = pre # jsSplit sep rest"
  by (induction pre) auto

lemma toDataURL_has_payload: "1 < length (jsSplit CHR '','' (toDataURL frame))"
proof (cases frame)
  case (Encoded payload)
  have "jsSplit CHR '','' (''data:image/jpeg;base64'' @ CHR '','' # payload)
          = ''data:image/jpeg;base64'' # jsSplit CHR '','' payload"
    by (rule jsSplit_append_sep) simp
  then show ?thesis
    using Encoded jsSplit_nonempty [of "CHR '',''" payload]
    by (cases "jsSplit CHR '','' payload") simp_all
next
  case Blank
  then show ?thesis by simp
qed

subsection \<open>The generate action\<close>

text \<open>
  Claim C3. With the photo or the scene absent, the generate action changes nothing
  but the error cell, which gets the validation message: the result and the loading
  flag stay as they were, and no request goes out.
\<close>

theorem handleGenerate_rejected:
  assumes "userImage s = None \<or> selectedScene s = None"
  shows "handleGenerate generateContent s
           = (s\<lparr> error := Some ''Please provide a photo and select a scene.'' \<rparr>, []) \<and>
         generatedImage (fst (handleGenerate generateContent s)) = generatedImage s \<and>
         isLoading (fst (handleGenerate generateContent s)) = isLoading s"
  using assms
  by (auto simp: handleGenerate_def handleGenerate_issue_def split: option.splits)

theorem handleGenerate_rejected_witness:
  "(userImage initialState = None \<or> selectedScene initialState = None) \<and>
   handleGenerate (\<lambda>request. Inl (Error ''offline'')) initialState
     = (initialState\<lparr> error := Some ''Please provide a photo and select a scene.'' \<rparr>, []) \<and>
   generatedImage (fst (handleGenerate (\<lambda>request. Inl (Error ''offline'')) initialState)) = None \<and>
   isLoading (fst (handleGenerate (\<lambda>request. Inl (Error ''offline'')) initialState)) = False"
  using handleGenerate_rejected [of initialState "\<lambda>request. Inl (Error ''offline'')"]
  by (simp add: initialState_def)

text \<open>
  Claim C4. With a photo P and a scene, the first part of the generate action sets the
  loading flag and clears the error and the result; when \<^verbatim>\<open>editImage\<close> resolves with
  Q, the result holds Q and the loading flag is off, whatever state the second part
  finds.
\<close>

theorem handleGenerate_success:
  assumes "userImage s = Some P" and "selectedScene s = Some scene"
    and "editImage generateContent (base64 P) (mimeType P) (prompt scene) = Inr Q"
  shows "handleGenerate_issue s
           = (s\<lparr> isLoading := True, error := None, generatedImage := None \<rparr>,
              Some \<lparr> sentImage = P, sentScene = scene \<rparr>) \<and>
         map_option base64 (generatedImage (fst (handleGenerate generateContent s))) = Some Q \<and>
         \<not> isLoading (fst (handleGenerate generateContent s)) \<and>
         (\<forall>s'. map_option base64
                  (generatedImage
                     (handleGenerate_settle \<lparr> sentImage = P, sentScene = scene \<rparr> (Inr Q) s'))
                = Some Q \<and>
               \<not> isLoading (handleGenerate_settle \<lparr> sentImage = P, sentScene = scene \<rparr> (Inr Q) s'))"
  using assms
  by (simp add: handleGenerate_def handleGenerate_issue_def handleGenerate_settle_def)

theorem handleGenerate_success_witness:
  "userImage scenePicked = Some photoP \<and> selectedScene scenePicked = Some rome \<and>
   editImage (\<lambda>request. Inr (textThenImage ''QUJD'')) (base64 photoP) (mimeType photoP) (prompt rome)
     = Inr ''QUJD'' \<and>
   map_option base64
     (generatedImage (fst (handleGenerate (\<lambda>request. Inr (textThenImage ''QUJD'')) scenePicked)))
     = Some ''QUJD'' \<and>
   \<not> isLoading (fst (handleGenerate (\<lambda>request. Inr (textThenImage ''QUJD'')) scenePicked))"
proof -
  have a: "userImage scenePicked = Some photoP" by (simp add: scenePicked_def initialState_def)
  have b: "selectedScene scenePicked = Some rome" by (simp add: scenePicked_def initialState_def)
  have c: "editImage (\<lambda>request. Inr (textThenImage ''QUJD'')) (base64 photoP) (mimeType photoP)
             (prompt rome) = Inr ''QUJD''"
    by (simp add: editImage_def extractImage_def textThenImage_def)
  from handleGenerate_success [OF a b c] a b c show ?thesis by simp
qed

text \<open>
  Claim C5. When \<^verbatim>\<open>editImage\<close> rejects, the error cell holds a non-empty message, the
  result is unset and the loading flag is off (the second part sets the message and
  the flag on any state and leaves the result as it finds it); a reset then gives the
  initial state, from which a photo and a scene make the generate action issue its
  call again.
\<close>

theorem handleGenerate_failure:
  assumes "userImage s = Some P" and "selectedScene s = Some scene"
    and "editImage generateContent (base64 P) (mimeType P) (prompt scene) = Inl err"
  shows "(\<exists>msg. error (fst (handleGenerate generateContent s)) = Some msg \<and> msg \<noteq> []) \<and>
         generatedImage (fst (handleGenerate generateContent s)) = None \<and>
         \<not> isLoading (fst (handleGenerate generateContent s)) \<and>
         (\<forall>s'. (\<exists>msg. error (handleGenerate_settle \<lparr> sentImage = P, sentScene = scene \<rparr> (Inl err) s')
                         = Some msg \<and> msg \<noteq> []) \<and>
               generatedImage (handleGenerate_settle \<lparr> sentImage = P, sentScene = scene \<rparr> (Inl err) s')
                 = generatedImage s' \<and>
               \<not> isLoading (handleGenerate_settle \<lparr> sentImage = P, sentScene = scene \<rparr> (Inl err) s')) \<and>
         reset (fst (handleGenerate generateContent s)) = initialState \<and>
         snd (handleGenerate_issue
                ((reset (fst (handleGenerate generateContent s)))
                   \<lparr> userImage := Some P, selectedScene := Some scene \<rparr>))
           = Some \<lparr> sentImage = P, sentScene = scene \<rparr>"
  using assms
  by (simp add: handleGenerate_def handleGenerate_issue_def handleGenerate_settle_def
      reset_def initialState_def)

theorem handleGenerate_failure_witness:
  "userImage scenePicked = Some photoP \<and> selectedScene scenePicked = Some rome \<and>
   editImage (\<lambda>request. Inl (Error ''Failed to fetch'')) (base64 photoP) (mimeType photoP) (prompt rome)
     = Inl (Error ''Failed to fetch'') \<and>
   error (fst (handleGenerate (\<lambda>request. Inl (Error ''Failed to fetch'')) scenePicked))
     = Some ''An error occurred: Failed to fetch'' \<and>
   generatedImage (fst (handleGenerate (\<lambda>request. Inl (Error ''Failed to fetch'')) scenePicked)) = None \<and>
   \<not> isLoading (fst (handleGenerate (\<lambda>request. Inl (Error ''Failed to fetch'')) scenePicked))"
proof -
  have a: "userImage scenePicked = Some photoP" by (simp add: scenePicked_def initialState_def)
  have b: "selectedScene scenePicked = Some rome" by (simp add: scenePicked_def initialState_def)
  have c: "editImage (\<lambda>request. Inl (Error ''Failed to fetch'')) (base64 photoP) (mimeType photoP)
             (prompt rome) = Inl (Error ''Failed to fetch'')"
    by (simp add: editImage_def)
  have d: "error (fst (handleGenerate (\<lambda>request. Inl (Error ''Failed to fetch'')) scenePicked))
     = Some ''An error occurred: Failed to fetch''"
    by (simp add: handleGenerate_def handleGenerate_issue_def handleGenerate_settle_def a b c)
  from handleGenerate_failure [OF a b c] a b c d show ?thesis by simp
qed

text \<open>
  Claim C8. The text part of the request is the scene's fragment between the two fixed
  pieces of the template, so two generate actions with the same scene send the same
  text, whatever the photo, the rest of the state and the remote service.
\<close>

theorem prompt_template:
  assumes "userImage s1 = Some P1" and "selectedScene s1 = Some scene"
    and "userImage s2 = Some P2" and "selectedScene s2 = Some scene"
  shows "map (map partText \<circ> contents) (snd (handleGenerate remote1 s1))
           = [[None, Some (''Take the person in the provided photo and seamlessly place them into a new scene. The scene should be: ''
                @ promptFragment scene
                @ ''. The final image should look like a vintage photograph, matching the historical era in style, lighting, and color tone.'')]] \<and>
         map (map partText \<circ> contents) (snd (handleGenerate remote2 s2))
           = map (map partText \<circ> contents) (snd (handleGenerate remote1 s1))"
  using assms
  by (simp add: handleGenerate_def handleGenerate_issue_def pendingRequest_def editRequest_def
      prompt_def)

theorem prompt_template_witness:
  "map (map partText \<circ> contents)
     (snd (handleGenerate (\<lambda>request. Inl (Error ''Failed to fetch'')) scenePicked))
     = [[None, Some ''Take the person in the provided photo and seamlessly place them into a new scene. The scene should be: a scene in the Roman Forum, with classical architecture and citizens in togas. The final image should look like a vintage photograph, matching the historical era in style, lighting, and color tone.'']] \<and>
   map (map partText \<circ> contents)
     (snd (handleGenerate (\<lambda>request. Inr (textThenImage ''QUJD''))
        (scenePicked\<lparr> userImage := Some (photoP\<lparr> base64 := ''d29ybGQ='' \<rparr>),
                     error := Some ''stale'' \<rparr>)))
     = map (map partText \<circ> contents)
         (snd (handleGenerate (\<lambda>request. Inl (Error ''Failed to fetch'')) scenePicked))"
proof -
  have a: "userImage scenePicked = Some photoP" by (simp add: scenePicked_def initialState_def)
  have b: "selectedScene scenePicked = Some rome" by (simp add: scenePicked_def initialState_def)
  have a': "userImage (scenePicked\<lparr> userImage := Some (photoP\<lparr> base64 := ''d29ybGQ='' \<rparr>),
                     error := Some ''stale'' \<rparr>) = Some (photoP\<lparr> base64 := ''d29ybGQ='' \<rparr>)"
    by simp
  have b': "selectedScene (scenePicked\<lparr> userImage := Some (photoP\<lparr> base64 := ''d29ybGQ='' \<rparr>),
                     error := Some ''stale'' \<rparr>) = Some rome"
    by (simp add: scenePicked_def initialState_def)
  have f: "promptFragment rome
             = ''a scene in the Roman Forum, with classical architecture and citizens in togas''"
    by (simp add: rome_def HISTORICAL_SCENES_def)
  from prompt_template [OF a b a' b', of "\<lambda>request. Inl (Error ''Failed to fetch'')"
      "\<lambda>request. Inr (textThenImage ''QUJD'')"] f
  show ?thesis by simp
qed

text \<open>
  Claim C9. The call that a generate action issues keeps the photo of that moment, and
  when the call settles with data Q the result takes its media type and the prefix of
  its data URL from that photo; the media type that the response gives for its image
  is not read.
\<close>

theorem result_mime_from_photo:
  assumes "userImage (app w0) = Some P" and "selectedScene (app w0) = Some scene"
    and "jsIndex (inflight w) k = Some \<lparr> sentImage = P, sentScene = scene \<rparr>"
    and "extractImage response = Inr Q"
  shows "inflight (step Generate w0) = inflight w0 @ [\<lparr> sentImage = P, sentScene = scene \<rparr>] \<and>
         generatedImage (app (step (EditSettles k (Inr response)) w))
           = Some \<lparr> base64 = Q,
                    url = ''data:'' @ mimeType P @ '';base64,'' @ Q,
                    mimeType = mimeType P \<rparr>"
  using assms
  by (simp add: step_def runEffect_def editImage_def handleGenerate_settle_def
      handleGenerate_issue_def)

text \<open>The photo is a JPEG, the response calls its image a PNG, the result is a JPEG.\<close>

theorem result_mime_from_photo_witness:
  "userImage (app \<lparr> app = scenePicked, inflight = [], effects = [] \<rparr>) = Some photoP \<and>
   selectedScene (app \<lparr> app = scenePicked, inflight = [], effects = [] \<rparr>) = Some rome \<and>
   jsIndex (inflight (step Generate \<lparr> app = scenePicked, inflight = [], effects = [] \<rparr>)) 0
     = Some \<lparr> sentImage = photoP, sentScene = rome \<rparr> \<and>
   extractImage (textThenImage ''QUJD'') = Inr ''QUJD'' \<and>
   generatedImage
     (app (step (EditSettles 0 (Inr (textThenImage ''QUJD'')))
        (step Generate \<lparr> app = scenePicked, inflight = [], effects = [] \<rparr>)))
     = Some \<lparr> base64 = ''QUJD'', url = ''data:image/jpeg;base64,QUJD'',
              mimeType = ''image/jpeg'' \<rparr>"
proof -
  have a: "userImage (app \<lparr> app = scenePicked, inflight = [], effects = [] \<rparr>) = Some photoP"
    by (simp add: scenePicked_def initialState_def)
  have b: "selectedScene (app \<lparr> app = scenePicked, inflight = [], effects = [] \<rparr>) = Some rome"
    by (simp add: scenePicked_def initialState_def)
  have c: "jsIndex (inflight (step Generate \<lparr> app = scenePicked, inflight = [], effects = [] \<rparr>)) 0
             = Some \<lparr> sentImage = photoP, sentScene = rome \<rparr>"
    by (simp add: step_def runEffect_def handleGenerate_issue_def scenePicked_def initialState_def)
  have d: "extractImage (textThenImage ''QUJD'') = Inr ''QUJD''"
    by (simp add: extractImage_def textThenImage_def)
  have m: "mimeType photoP = ''image/jpeg''" by (simp add: photoP_def)
  from result_mime_from_photo [OF a b c d] a b c d m show ?thesis by simp
qed

subsection \<open>Histories of the component\<close>

lemmas eval_defs =
  run_def step_def runEffect_def cleanup_def initialWorld_def initialState_def
  handleFileChange_def fileToBase64_def handleGenerate_issue_def handleGenerate_settle_def
  editImage_def extractImage_def reset_def scenePanel_def
  fileP_def rome_def HISTORICAL_SCENES_def textThenImage_def photoP_def

lemma run_snoc: "run (evs @ [ev]) w = step ev (run evs w)"
  by (simp add: run_def)

lemma run_Nil: "run [] w = w"
  by (simp add: run_def)

lemma run_Cons: "run (ev # evs) w = run evs (step ev w)"
  by (simp add: run_def)

lemma jsIndex_mem: "jsIndex xs k = Some x \<Longrightarrow> x \<in> set xs"
  by (induction xs k rule: jsIndex.induct) auto

lemma app_runEffect: "app (runEffect b w) = app w"
  by (simp add: runEffect_def split: list.splits)

lemma inflight_runEffect: "inflight (runEffect b w) = inflight w"
  by (simp add: runEffect_def split: list.splits)

lemma step_generatedImage:
  assumes "generatedImage (app (step ev w)) = Some g"
  shows "generatedImage (app w) = Some g \<or>
         (\<exists>k response call Q. ev = EditSettles k (Inr response) \<and>
            jsIndex (inflight w) k = Some call \<and> extractImage response = Inr Q \<and>
            g = resultOf call Q)"
proof (cases ev)
  case (EditSettles k r)
  show ?thesis
  proof (cases "jsIndex (inflight w) k")
    case None
    with assms EditSettles show ?thesis by (simp add: step_def app_runEffect)
  next
    case (Some call)
    show ?thesis
    proof (cases r)
      case (Inl e)
      with assms EditSettles Some show ?thesis
        by (simp add: step_def app_runEffect editImage_def handleGenerate_settle_def)
    next
      case (Inr response)
      show ?thesis
      proof (cases "extractImage response")
        case (Inl e)
        with assms EditSettles Some Inr show ?thesis
          by (simp add: step_def app_runEffect editImage_def handleGenerate_settle_def)
      next
        case (Inr Q)
        with assms EditSettles Some \<open>r = Inr response\<close> show ?thesis
          by (auto simp: step_def app_runEffect editImage_def handleGenerate_settle_def
              resultOf_def)
      qed
    qed
  qed
next
  case Generate
  with assms show ?thesis
    by (auto simp: step_def app_runEffect handleGenerate_issue_def split: option.splits)
next
  case (FileChange chosen)
  with assms show ?thesis
    by (auto simp: step_def app_runEffect handleFileChange_def split: option.splits sum.splits)
next
  case (Capture ctx)
  with assms show ?thesis
    by (auto simp: step_def app_runEffect handleCapture_def Let_def split: option.splits if_splits)
next
  case (CameraGranted k n)
  with assms show ?thesis
    by (auto simp: step_def app_runEffect split: option.splits if_splits)
next
  case (CameraDenied k e)
  with assms show ?thesis
    by (auto simp: step_def app_runEffect split: option.splits if_splits)
qed (insert assms, auto simp: step_def app_runEffect reset_def)

lemma step_inflight:
  assumes "call \<in> set (inflight (step ev w))"
  shows "call \<in> set (inflight w) \<or>
         (ev = Generate \<and> userImage (app w) = Some (sentImage call) \<and>
          selectedScene (app w) = Some (sentScene call))"
proof (cases ev)
  case Generate
  with assms show ?thesis
    by (auto simp: step_def inflight_runEffect handleGenerate_issue_def split: option.splits)
next
  case (EditSettles k r)
  with assms show ?thesis
    by (auto simp: step_def inflight_runEffect split: option.splits dest: in_set_takeD in_set_dropD)
next
  case (CameraGranted k n)
  with assms show ?thesis
    by (auto simp: step_def inflight_runEffect split: option.splits if_splits)
next
  case (CameraDenied k e)
  with assms show ?thesis
    by (auto simp: step_def inflight_runEffect split: option.splits if_splits)
qed (insert assms, auto simp: step_def inflight_runEffect)

lemma issuedAt_snoc: "issuedAt evs i call \<Longrightarrow> issuedAt (evs @ [ev]) i call"
  by (simp add: issuedAt_def nth_append)

lemma issuedAt_last:
  "userImage (app (run evs initialWorld)) = Some (sentImage call) \<Longrightarrow>
   selectedScene (app (run evs initialWorld)) = Some (sentScene call) \<Longrightarrow>
   issuedAt (evs @ [Generate]) (length evs) call"
  by (simp add: issuedAt_def)

lemma inflight_issued:
  "call \<in> set (inflight (run evs initialWorld)) \<Longrightarrow> \<exists>i. issuedAt evs i call"
proof (induction evs arbitrary: call rule: rev_induct)
  case Nil
  then show ?case by (simp add: run_Nil initialWorld_def)
next
  case (snoc ev evs)
  from snoc.prems have "call \<in> set (inflight (step ev (run evs initialWorld)))"
    by (simp add: run_snoc)
  then consider
    (old) "call \<in> set (inflight (run evs initialWorld))"
    | (new) "ev = Generate"
      "userImage (app (run evs initialWorld)) = Some (sentImage call)"
      "selectedScene (app (run evs initialWorld)) = Some (sentScene call)"
    using step_inflight by blast
  then show ?case
  proof cases
    case old
    then obtain i where "issuedAt evs i call" using snoc.IH by blast
    then show ?thesis using issuedAt_snoc by blast
  next
    case new
    then show ?thesis using issuedAt_last by blast
  qed
qed

lemma stale_after_reset:
  "run (take 4 staleTrace) initialWorld
     = \<lparr> app = initialState, inflight = [\<lparr> sentImage = photoP, sentScene = rome \<rparr>], effects = [] \<rparr>"
  by (simp add: staleTrace_def eval_defs)

lemma stale_final:
  "run staleTrace initialWorld
     = \<lparr> app = initialState\<lparr> generatedImage := Some \<lparr> base64 = ''QUJD'',
            url = ''data:image/jpeg;base64,QUJD'', mimeType = ''image/jpeg'' \<rparr> \<rparr>,
         inflight = [], effects = [] \<rparr>"
  by (simp add: staleTrace_def eval_defs)

lemma stale_feasible: "feasible initialWorld staleTrace"
  by (simp add: staleTrace_def eval_defs)

text \<open>
  Claim C6, as stated, fails. The user uploads a photo, picks a scene, starts the
  generate action and clears the photo while the call is in flight (every step is
  offered by the page); the reset leaves the call in flight, and when the call
  settles its image becomes the result of a state that has no photo and no scene.
\<close>

theorem stale_result_applied:
  "feasible initialWorld staleTrace \<and>
   staleTrace ! 2 = Generate \<and> staleTrace ! 3 = Reset \<and>
   staleTrace ! 4 = EditSettles 0 (Inr (textThenImage ''QUJD'')) \<and>
   inflight (run (take 4 staleTrace) initialWorld) = [\<lparr> sentImage = photoP, sentScene = rome \<rparr>] \<and>
   app (run (take 4 staleTrace) initialWorld) = initialState \<and>
   app (run staleTrace initialWorld)
     = initialState\<lparr> generatedImage := Some \<lparr> base64 = ''QUJD'',
          url = ''data:image/jpeg;base64,QUJD'', mimeType = ''image/jpeg'' \<rparr> \<rparr>"
  by (simp add: stale_after_reset stale_final stale_feasible) (simp add: staleTrace_def)

text \<open>
  Claim C6, amended. In every state that a history of events reaches from the initial
  state, a result that is set was built from the data of a call that settled with an
  image, and that call was issued by an earlier generate action with the photo and
  the scene of the state in which it was issued. (Nothing ties the call to the state
  in which it settles.)
\<close>

theorem result_from_issued_call:
  assumes "generatedImage (app (run evs initialWorld)) = Some g"
  shows "\<exists>i j k response call Q.
           i < j \<and> j < length evs \<and> issuedAt evs i call \<and>
           evs ! j = EditSettles k (Inr response) \<and>
           jsIndex (inflight (run (take j evs) initialWorld)) k = Some call \<and>
           extractImage response = Inr Q \<and> g = resultOf call Q"
  using assms
proof (induction evs rule: rev_induct)
  case Nil
  then show ?case by (simp add: run_Nil initialWorld_def initialState_def)
next
  case (snoc ev evs)
  from snoc.prems have "generatedImage (app (step ev (run evs initialWorld))) = Some g"
    by (simp add: run_snoc)
  then consider
    (old) "generatedImage (app (run evs initialWorld)) = Some g"
    | (new) k response call Q where "ev = EditSettles k (Inr response)"
      "jsIndex (inflight (run evs initialWorld)) k = Some call"
      "extractImage response = Inr Q" "g = resultOf call Q"
    using step_generatedImage by blast
  then show ?case
  proof cases
    case old
    then obtain i j k response call Q where h:
      "i < j" "j < length evs" "issuedAt evs i call"
      "evs ! j = EditSettles k (Inr response)"
      "jsIndex (inflight (run (take j evs) initialWorld)) k = Some call"
      "extractImage response = Inr Q" "g = resultOf call Q"
      using snoc.IH by blast
    have "j < length (evs @ [ev])" using h(2) by simp
    moreover have "issuedAt (evs @ [ev]) i call" using h(3) by (rule issuedAt_snoc)
    moreover have "(evs @ [ev]) ! j = EditSettles k (Inr response)"
      using h(2,4) by (simp add: nth_append)
    moreover have "jsIndex (inflight (run (take j (evs @ [ev])) initialWorld)) k = Some call"
      using h(2,5) by simp
    ultimately show ?thesis using h(1,6,7) by blast
  next
    case new
    from new(2) have "call \<in> set (inflight (run evs initialWorld))" by (rule jsIndex_mem)
    then obtain i where i: "issuedAt evs i call" using inflight_issued by blast
    then have "i < length evs" by (simp add: issuedAt_def)
    moreover have "length evs < length (evs @ [ev])" by simp
    moreover have "issuedAt (evs @ [ev]) i call" using i by (rule issuedAt_snoc)
    moreover have "(evs @ [ev]) ! length evs = EditSettles k (Inr response)"
      using new(1) by simp
    moreover have "jsIndex (inflight (run (take (length evs) (evs @ [ev])) initialWorld)) k
                     = Some call"
      using new(2) by simp
    ultimately show ?thesis using new(3,4) by blast
  qed
qed

theorem result_from_issued_call_witness:
  "generatedImage (app (run staleTrace initialWorld))
     = Some \<lparr> base64 = ''QUJD'', url = ''data:image/jpeg;base64,QUJD'', mimeType = ''image/jpeg'' \<rparr> \<and>
   (\<exists>i j k response call Q.
      i < j \<and> j < length staleTrace \<and> issuedAt staleTrace i call \<and>
      staleTrace ! j = EditSettles k (Inr response) \<and>
      jsIndex (inflight (run (take j staleTrace) initialWorld)) k = Some call \<and>
      extractImage response = Inr Q \<and>
      \<lparr> base64 = ''QUJD'', url = ''data:image/jpeg;base64,QUJD'', mimeType = ''image/jpeg'' \<rparr>
        = resultOf call Q)"
proof -
  have g: "generatedImage (app (run staleTrace initialWorld))
     = Some \<lparr> base64 = ''QUJD'', url = ''data:image/jpeg;base64,QUJD'', mimeType = ''image/jpeg'' \<rparr>"
    by (simp add: stale_final initialState_def)
  from result_from_issued_call [OF g] g show ?thesis by blast
qed

subsection \<open>Reset and the camera\<close>

text \<open>
  Two facts around claim C7 that hold: \<^verbatim>\<open>reset\<close> gives the initial state, and when the
  camera is on and the current run of the effect has its stream, the cleanup that
  follows the reset stops every track of it.
\<close>

lemma reset_initialState: "reset s = initialState"
  by (simp add: reset_def initialState_def)

lemma reset_stops_current_stream:
  assumes "isCameraOn (app w)" and "effects w = effs @ [eff]" and "stream eff = Some tracks"
  shows "effects (step Reset w) = effs @ [eff\<lparr> stream := Some (map stop tracks) \<rparr>] \<and>
         set (map stop tracks) \<subseteq> {Ended}"
  using assms
  by (cases effs) (auto simp: step_def runEffect_def reset_def cleanup_def)

text \<open>
  Claim C7 says that after a reset no camera stream is active. The user turns the
  camera on and cancels before the camera is granted: the cleanup runs while the
  variable \<^verbatim>\<open>stream\<close> is still \<^verbatim>\<open>null\<close> and stops nothing. The stream that arrives then
  is held by no one; after an upload and a reset every cell is cleared and the track
  of that stream is still live.
\<close>

theorem camera_leak:
  "feasible initialWorld leakTrace \<and>
   app (run leakTrace initialWorld) = initialState \<and>
   effects (run leakTrace initialWorld) = [\<lparr> stream = Some [Live], settled = True \<rparr>]"
  by (simp add: leakTrace_def eval_defs)

end
